theory Spec2Isabelle
  imports Complex_Main
begin

section \<open>Values exchanged with the server\<close>

text \<open>
  The client is TypeScript on top of axios and the browser's \<^verbatim>\<open>localStorage\<close>.
  JavaScript numbers are carried as exact rationals (\<^typ>\<open>rat\<close>) where the code only
  compares them (the comparison of two finite doubles is the comparison of their values),
  and as integers where they are page counters.  A value produced by
  \<^verbatim>\<open>JSON.parse\<close> is a \<open>json\<close>; \<open>truthy\<close> is JavaScript's \<^verbatim>\<open>!!v\<close>.
\<close>

datatype json =
    JNull
  | JBool bool
  | JNum rat
  | JStr string
  | JArr "json list"
  | JObj "(string \<times> json) list"

fun truthy :: "json \<Rightarrow> bool" where
  "truthy JNull = False"
| "truthy (JBool b) = b"
| "truthy (JNum n) = (n \<noteq> 0)"
| "truthy (JStr s) = (s \<noteq> [])"
| "truthy (JArr xs) = True"
| "truthy (JObj kvs) = True"

text \<open>\<^verbatim>\<open>if (token)\<close> on the result of \<^verbatim>\<open>localStorage.getItem\<close>: \<^verbatim>\<open>null\<close> and the empty
  string are falsy.\<close>

fun present :: "string option \<Rightarrow> bool" where
  "present None = False"
| "present (Some s) = (s \<noteq> [])"

text \<open>\<^verbatim>\<open>src/types/item.types.ts\<close>, \<^verbatim>\<open>sale.types.ts\<close> and the customer fields the pages use.\<close>

record item =
  item_id :: "string option"
  item_name :: string
  item_quantity :: rat
  item_price :: rat

record customer =
  customer_id :: "string option"
  customer_name :: string

record sale =
  sale_id :: "string option"
  sale_item :: string
  sale_customerName :: "string option"
  sale_quantity :: rat
  totalPrice :: rat
  sale_date :: string

record list_meta =
  meta_page :: int
  meta_pageSize :: int
  meta_total :: int
  meta_totalPages :: int

record createSalePayload =
  p_item :: string
  p_customer :: "string option"
  p_customerName :: "string option"
  p_quantity :: rat
  p_date :: "string option"

text \<open>Request data and response bodies, one constructor per shape the sources use.\<close>

datatype reqdata =
    NoData
  | Credentials string string
  | RefreshData string
  | SalePayload createSalePayload
  | ListQuery int int

datatype body =
    AuthData json string string
  | TokenData string string
  | SaleData sale
  | ItemList "item list" list_meta
  | CustomerList "customer list" list_meta
  | SaleList "sale list" list_meta
  | Message string

section \<open>The HTTP client: \<^verbatim>\<open>src/api/axios.ts\<close>\<close>

datatype http_method = GET | POST | PUT | DELETE

text \<open>An axios request config; \<open>retry\<close> is the \<^verbatim>\<open>_retry\<close> marker.\<close>

record config =
  url :: string
  http_method :: http_method
  headers :: "string \<rightharpoonup> string"
  reqdata :: reqdata
  retry :: bool

datatype response = Response (status: nat) (data: body)

text \<open>What the network gives back: an HTTP response or nothing at all.\<close>

datatype reply = Reply nat body | NoReply

text \<open>A rejected promise: an axios error (\<^verbatim>\<open>error.config\<close>, \<^verbatim>\<open>error.response\<close>) or a
  plain JavaScript \<^verbatim>\<open>Error\<close> with its message.\<close>

datatype failure = AxiosError config "response option" | JsError string

text \<open>Every effect of the client, in the order it happens.\<close>

datatype event =
    GetItem string
  | SetItem string string
  | RemoveItem string
  | ApiSend config
  | AxiosPost config
  | Navigate string

text \<open>The browser state the client touches: \<^verbatim>\<open>localStorage\<close>,
  \<^verbatim>\<open>api.defaults.headers.common\<close>, \<^verbatim>\<open>window.location.href\<close>, and the trace of effects.\<close>

record world =
  storage :: "string \<rightharpoonup> string"
  defaults :: "string \<rightharpoonup> string"
  href :: string
  trace :: "event list"

text \<open>The server is any function of what the client did so far and of the request.\<close>

type_synonym server = "event list \<Rightarrow> config \<Rightarrow> reply"

definition API_BASE_URL :: string where
  "API_BASE_URL = ''http://localhost:5000/api''"

definition AUTH_LOGIN :: string where
  "AUTH_LOGIN = ''/auth/login''"

definition AUTH_REGISTER :: string where
  "AUTH_REGISTER = ''/auth/register''"

definition AUTH_REFRESH_TOKEN :: string where
  "AUTH_REFRESH_TOKEN = ''/auth/refresh-token''"

definition ITEMS_BASE :: string where
  "ITEMS_BASE = ''/items''"

definition CUSTOMERS_BASE :: string where
  "CUSTOMERS_BASE = ''/customers''"

definition SALES_BASE :: string where
  "SALES_BASE = ''/sales''"

definition SALES_GET_BY_CUSTOMER :: "string \<Rightarrow> string" where
  "SALES_GET_BY_CUSTOMER customerId = ''/sales/customer/'' @ customerId"

subsection \<open>\<^verbatim>\<open>localStorage\<close> and navigation\<close>

definition getItem :: "string \<Rightarrow> world \<Rightarrow> string option \<times> world" where
  "getItem k w = (storage w k, w\<lparr>trace := trace w @ [GetItem k]\<rparr>)"

definition setItem :: "string \<Rightarrow> string \<Rightarrow> world \<Rightarrow> world" where
  "setItem k v w = w\<lparr>storage := (storage w)(k \<mapsto> v), trace := trace w @ [SetItem k v]\<rparr>"

definition removeItem :: "string \<Rightarrow> world \<Rightarrow> world" where
  "removeItem k w = w\<lparr>storage := (storage w)(k := None), trace := trace w @ [RemoveItem k]\<rparr>"

definition navigate :: "string \<Rightarrow> world \<Rightarrow> world" where
  "navigate target w = w\<lparr>href := target, trace := trace w @ [Navigate target]\<rparr>"

subsection \<open>Sending\<close>

text \<open>axios merges the instance defaults under the headers of the request's own config.\<close>

definition merge_config :: "world \<Rightarrow> config \<Rightarrow> config" where
  "merge_config w cfg = cfg\<lparr>headers := defaults w ++ headers cfg\<rparr>"

definition bearer :: "string \<Rightarrow> string" where
  "bearer token = ''Bearer '' @ token"

text \<open>The request interceptor (lines 102-111).\<close>

definition request_interceptor :: "config \<Rightarrow> world \<Rightarrow> config \<times> world" where
  "request_interceptor cfg w =
     (let (token, w1) = getItem ''accessToken'' w
      in if present token
         then (cfg\<lparr>headers := (headers cfg)(''Authorization'' \<mapsto> bearer (the token))\<rparr>, w1)
         else (cfg, w1))"

text \<open>The config as it leaves the client, and the world once it has left.\<close>

definition outbound :: "config \<Rightarrow> world \<Rightarrow> config" where
  "outbound cfg w = fst (request_interceptor (merge_config w cfg) w)"

definition dispatch :: "server \<Rightarrow> config \<Rightarrow> world \<Rightarrow> reply \<times> world" where
  "dispatch srv cfg w = (srv (trace w) cfg, w\<lparr>trace := trace w @ [ApiSend cfg]\<rparr>)"

text \<open>The refresh call goes through the global axios, not through the instance: no
  interceptor, no instance default.\<close>

definition refresh_request :: "string \<Rightarrow> config" where
  "refresh_request refreshToken =
     \<lparr>url = API_BASE_URL @ AUTH_REFRESH_TOKEN, http_method = POST,
      headers = [''Content-Type'' \<mapsto> ''application/json''],
      reqdata = RefreshData refreshToken, retry = False\<rparr>"

definition axios_post :: "server \<Rightarrow> config \<Rightarrow> world \<Rightarrow> (failure + response) \<times> world" where
  "axios_post srv cfg w =
     (let w1 = w\<lparr>trace := trace w @ [AxiosPost cfg]\<rparr>
      in case srv (trace w) cfg of
           NoReply \<Rightarrow> (Inl (AxiosError cfg None), w1)
         | Reply st b \<Rightarrow>
             if 200 \<le> st \<and> st < 300 then (Inr (Response st b), w1)
             else (Inl (AxiosError cfg (Some (Response st b))), w1))"

text \<open>\<^verbatim>\<open>const { accessToken, refreshToken } = response.data.data\<close>: a body without
  \<^verbatim>\<open>data.data\<close> makes the destructuring throw a TypeError.\<close>

fun tokens_of :: "body \<Rightarrow> (string \<times> string) option" where
  "tokens_of (TokenData a r) = Some (a, r)"
| "tokens_of (AuthData u a r) = Some (a, r)"
| "tokens_of _ = None"

text \<open>The catch block (lines 146-152).\<close>

definition refresh_failed :: "failure \<Rightarrow> world \<Rightarrow> (failure + response) \<times> world" where
  "refresh_failed refreshError w =
     (Inl refreshError,
      navigate ''/login'' (removeItem ''refreshToken'' (removeItem ''accessToken'' w)))"

fun status_of :: "failure \<Rightarrow> nat option" where
  "status_of (AxiosError cfg None) = None"
| "status_of (AxiosError cfg (Some r)) = Some (status r)"
| "status_of (JsError m) = None"

fun is_retried :: "failure \<Rightarrow> bool" where
  "is_retried (AxiosError cfg r) = retry cfg"
| "is_retried (JsError m) = False"

text \<open>
  \<open>api_request\<close> is \<^verbatim>\<open>api(config)\<close>: merge, request interceptor, send, response
  interceptor.  \<open>response_error\<close> is the response interceptor's error handler (lines
  116-156).  The replay \<^verbatim>\<open>return api(originalRequest)\<close> is returned without
  \<^verbatim>\<open>await\<close>, so its rejection does not reach the catch block.
\<close>

function (sequential)
  api_request :: "server \<Rightarrow> config \<Rightarrow> world \<Rightarrow> (failure + response) \<times> world" and
  response_error :: "server \<Rightarrow> failure \<Rightarrow> world \<Rightarrow> (failure + response) \<times> world"
where
  "api_request srv cfg w =
     (let (cfg1, w1) = request_interceptor (merge_config w cfg) w;
          (rep, w2) = dispatch srv cfg1 w1
      in case rep of
           NoReply \<Rightarrow> response_error srv (AxiosError cfg1 None) w2
         | Reply st b \<Rightarrow>
             if 200 \<le> st \<and> st < 300 then (Inr (Response st b), w2)
             else response_error srv (AxiosError cfg1 (Some (Response st b))) w2)"
| "response_error srv (JsError m) w = (Inl (JsError m), w)"
| "response_error srv (AxiosError originalRequest resp) w =
     (if map_option status resp = Some 401 \<and> \<not> retry originalRequest then
        let (refreshToken, w1) = getItem ''refreshToken'' w
        in if \<not> present refreshToken then refresh_failed (JsError ''No refresh token'') w1
           else
             case axios_post srv (refresh_request (the refreshToken)) w1 of
               (Inl refreshError, w2) \<Rightarrow> refresh_failed refreshError w2
             | (Inr response, w2) \<Rightarrow>
                 (case tokens_of (data response) of
                    None \<Rightarrow> refresh_failed (JsError ''TypeError'') w2
                  | Some (accessToken, newRefreshToken) \<Rightarrow>
                      let w3 = setItem ''accessToken'' accessToken w2;
                          w4 = setItem ''refreshToken'' newRefreshToken w3;
                          w5 = w4\<lparr>defaults :=
                                 (defaults w4)(''Authorization'' \<mapsto> bearer accessToken)\<rparr>;
                          replay = originalRequest
                            \<lparr>retry := True,
                             headers := (headers originalRequest)
                               (''Authorization'' \<mapsto> bearer accessToken)\<rparr>
                      in api_request srv replay w5)
      else (Inl (AxiosError originalRequest resp), w))"
  by pat_completeness auto

termination
  by (relation "measure (\<lambda>x. case x of
          Inl (srv, cfg, w) \<Rightarrow> (if retry cfg then 1 else 3)
        | Inr (srv, err, w) \<Rightarrow> (if is_retried err then 0 else 2))")
     (auto simp: request_interceptor_def getItem_def merge_config_def Let_def
           split: if_splits)

subsection \<open>Reading the trace\<close>

text \<open>The first send of a request: the world right after it, and the server's reply to it.\<close>

definition after_send :: "config \<Rightarrow> world \<Rightarrow> world" where
  "after_send cfg w =
     w\<lparr>trace := trace w @ [GetItem ''accessToken'', ApiSend (outbound cfg w)]\<rparr>"

definition first_reply :: "server \<Rightarrow> config \<Rightarrow> world \<Rightarrow> reply" where
  "first_reply srv cfg w = srv (trace w @ [GetItem ''accessToken'']) (outbound cfg w)"

text \<open>The server's reply to the refresh call that follows a first 401.\<close>

definition refresh_reply :: "server \<Rightarrow> config \<Rightarrow> world \<Rightarrow> string \<Rightarrow> reply" where
  "refresh_reply srv cfg w refreshToken =
     srv (trace (after_send cfg w) @ [GetItem ''refreshToken'']) (refresh_request refreshToken)"

text \<open>axios rejects a request that got no response or a status outside 2xx; the error it
  rejects with carries the config as sent.\<close>

fun rejected :: "reply \<Rightarrow> bool" where
  "rejected NoReply = True"
| "rejected (Reply st b) = (st < 200 \<or> 300 \<le> st)"

fun reply_status :: "reply \<Rightarrow> nat option" where
  "reply_status NoReply = None"
| "reply_status (Reply st b) = Some st"

fun reply_error :: "config \<Rightarrow> reply \<Rightarrow> failure" where
  "reply_error cfg NoReply = AxiosError cfg None"
| "reply_error cfg (Reply st b) = AxiosError cfg (Some (Response st b))"

fun is_refresh_call :: "event \<Rightarrow> bool" where
  "is_refresh_call (AxiosPost c) = True"
| "is_refresh_call _ = False"

definition refresh_calls :: "event list \<Rightarrow> nat" where
  "refresh_calls tr = length (filter is_refresh_call tr)"

fun sent_config :: "event \<Rightarrow> config option" where
  "sent_config (ApiSend c) = Some c"
| "sent_config _ = None"

definition api_sends :: "event list \<Rightarrow> config list" where
  "api_sends tr = List.map_filter sent_config tr"

fun is_network_call :: "event \<Rightarrow> bool" where
  "is_network_call (ApiSend c) = True"
| "is_network_call (AxiosPost c) = True"
| "is_network_call _ = False"

definition network_calls :: "event list \<Rightarrow> event list" where
  "network_calls tr = filter is_network_call tr"

fun is_storage_access :: "event \<Rightarrow> bool" where
  "is_storage_access (GetItem k) = True"
| "is_storage_access (SetItem k v) = True"
| "is_storage_access (RemoveItem k) = True"
| "is_storage_access _ = False"

subsection \<open>The verb helpers\<close>

definition post_config :: "string \<Rightarrow> reqdata \<Rightarrow> config" where
  "post_config u d =
     \<lparr>url = u, http_method = POST, headers = Map.empty, reqdata = d, retry = False\<rparr>"

definition get_config :: "string \<Rightarrow> reqdata \<Rightarrow> config" where
  "get_config u params =
     \<lparr>url = u, http_method = GET, headers = Map.empty, reqdata = params, retry = False\<rparr>"

definition api_post :: "server \<Rightarrow> string \<Rightarrow> reqdata \<Rightarrow> world \<Rightarrow> (failure + response) \<times> world" where
  "api_post srv u d w = api_request srv (post_config u d) w"

definition api_get :: "server \<Rightarrow> string \<Rightarrow> reqdata \<Rightarrow> world \<Rightarrow> (failure + response) \<times> world" where
  "api_get srv u params w = api_request srv (get_config u params) w"

section \<open>The session: \<^verbatim>\<open>src/context/AuthContext.tsx\<close>\<close>

text \<open>The provider's React state.  \<^verbatim>\<open>user\<close> is \<^verbatim>\<open>User | null\<close>; \<^verbatim>\<open>JSON.parse\<close> and
  \<^verbatim>\<open>JSON.stringify\<close> are the platform's and are taken as parameters (\<open>None\<close> is a
  thrown SyntaxError).\<close>

record auth =
  user :: json
  isLoading :: bool


definition initial_auth :: auth where
  "initial_auth = \<lparr>user = JNull, isLoading = True\<rparr>"

definition isAuthenticated :: "auth \<Rightarrow> bool" where
  "isAuthenticated a = truthy (user a)"

text \<open>The start-up effect (lines 41-55).\<close>

definition startup :: "(string \<Rightarrow> json option) \<Rightarrow> auth \<times> world \<Rightarrow> auth \<times> world" where
  "startup parse aw =
     (let (a, w) = aw;
          (token, w1) = getItem ''accessToken'' w;
          (storedUser, w2) = getItem ''user'' w1
      in if present token \<and> present storedUser then
           (case parse (the storedUser) of
              Some parsedUser \<Rightarrow> (a\<lparr>user := parsedUser, isLoading := False\<rparr>, w2)
            | None \<Rightarrow> (a\<lparr>isLoading := False\<rparr>, removeItem ''user'' w2))
         else (a\<lparr>isLoading := False\<rparr>, w2))"



text \<open>\<^verbatim>\<open>logout\<close> (lines 77-82).\<close>

definition logout :: "auth \<times> world \<Rightarrow> auth \<times> world" where
  "logout aw =
     (let (a, w) = aw
      in (a\<lparr>user := JNull\<rparr>,
          removeItem ''user'' (removeItem ''refreshToken'' (removeItem ''accessToken'' w))))"

section \<open>The sales page: \<^verbatim>\<open>src/pages/SalesPage.tsx\<close>\<close>

record saleFormState =
  itemId :: string
  customerId :: string
  isCash :: bool
  quantity :: rat
  date :: string

text \<open>\<open>today\<close> stands for \<^verbatim>\<open>new Date().toISOString().split("T")[0]\<close>.\<close>

definition emptySaleForm :: "string \<Rightarrow> saleFormState" where
  "emptySaleForm today =
     \<lparr>itemId = [], customerId = [], isCash = True, quantity = 1, date = today\<rparr>"

record salesPage =
  items :: "item list"
  customers :: "customer list"
  sales :: "sale list"
  meta :: list_meta
  page :: int
  form :: saleFormState
  sales_isLoading :: bool
  isSubmitting :: bool
  error :: "string option"

definition selectedItem :: "salesPage \<Rightarrow> item option" where
  "selectedItem p = find (\<lambda>i. item_id i = Some (itemId (form p))) (items p)"

definition validateForm :: "salesPage \<Rightarrow> string option" where
  "validateForm p =
     (if itemId (form p) = [] then Some ''Please select an item.''
      else if \<not> isCash (form p) \<and> customerId (form p) = []
        then Some ''Please select a customer or choose Cash.''
      else if quantity (form p) \<le> 0 then Some ''Quantity must be at least 1.''
      else case selectedItem p of
             None \<Rightarrow> Some ''Selected item not found.''
           | Some it \<Rightarrow>
               if item_quantity it < quantity (form p)
               then Some ''Insufficient stock for the selected item.''
               else None)"

text \<open>\<^verbatim>\<open>saleService.createSale\<close>: the page awaits it and ignores the sale it resolves with.\<close>

definition createSale ::
  "server \<Rightarrow> createSalePayload \<Rightarrow> world \<Rightarrow> (failure + sale option) \<times> world" where
  "createSale srv payload w =
     (case api_post srv SALES_BASE (SalePayload payload) w of
        (Inl e, w1) \<Rightarrow> (Inl e, w1)
      | (Inr response, w1) \<Rightarrow>
          (Inr (case data response of SaleData s \<Rightarrow> Some s | _ \<Rightarrow> None), w1))"

text \<open>\<^verbatim>\<open>ItemListResponse\<close> and \<^verbatim>\<open>SaleListResponse\<close>, what the two list services resolve
  with.\<close>

record itemListResponse =
  items_data :: "item list"
  items_meta :: list_meta

record saleListResponse =
  sales_data :: "sale list"
  sales_meta :: list_meta

text \<open>
  \<^verbatim>\<open>Promise.all([itemService.getItems(...), saleService.getSales(...)])\<close> (lines 141-144)
  runs two requests of the client at once; how their sends, replies and refreshes
  interleave is the event loop's and the network's.  The page is therefore defined for
  every such operation: \<open>reload\<close> takes the sales query (page, page size) and the world and
  gives either both results or the failure \<^verbatim>\<open>Promise.all\<close> rejects with, and the world it
  leaves.
\<close>

type_synonym reload =
  "int \<Rightarrow> int \<Rightarrow> world \<Rightarrow> (failure + itemListResponse \<times> saleListResponse) \<times> world"

text \<open>The message of the catch block: the server's \<^verbatim>\<open>response.data.message\<close> when there
  is one.\<close>

fun create_sale_message :: "failure \<Rightarrow> string" where
  "create_sale_message (AxiosError c (Some (Response st (Message m)))) = m"
| "create_sale_message _ = ''Failed to create sale. Please try again.''"

definition build_payload :: "salesPage \<Rightarrow> createSalePayload" where
  "build_payload p =
     (let payload = \<lparr>p_item = itemId (form p), p_customer = None, p_customerName = None,
                      p_quantity = quantity (form p), p_date = Some (date (form p))\<rparr>
      in if isCash (form p) then payload\<lparr>p_customerName := Some ''Cash''\<rparr>
         else
           (case find (\<lambda>c. customer_id c = Some (customerId (form p))) (customers p) of
              Some c \<Rightarrow> payload\<lparr>p_customer := Some (customerId (form p)),
                                 p_customerName := Some (customer_name c)\<rparr>
            | None \<Rightarrow> payload\<lparr>p_customer := Some (customerId (form p))\<rparr>))"

text \<open>\<^verbatim>\<open>handleSubmit\<close> (lines 110-165).\<close>

definition handleSubmit ::
  "server \<Rightarrow> string \<Rightarrow> reload \<Rightarrow> salesPage \<times> world \<Rightarrow> salesPage \<times> world" where
  "handleSubmit srv today reload pw =
     (let (p, w) = pw
      in case validateForm p of
           Some validationError \<Rightarrow> (p\<lparr>error := Some validationError\<rparr>, w)
         | None \<Rightarrow>
             (let p1 = p\<lparr>isSubmitting := True, error := None\<rparr>
              in case createSale srv (build_payload p) w of
                   (Inl err, w1) \<Rightarrow>
                     (p1\<lparr>error := Some (create_sale_message err), isSubmitting := False\<rparr>, w1)
                 | (Inr created, w1) \<Rightarrow>
                     (let p2 = p1\<lparr>form := emptySaleForm today\<rparr>
                      in case reload (page p) (meta_pageSize (meta p)) w1 of
                           (Inl err, w2) \<Rightarrow>
                             (p2\<lparr>error := Some (create_sale_message err),
                                 isSubmitting := False\<rparr>, w2)
                         | (Inr (itemsRes, salesRes), w2) \<Rightarrow>
                             (p2\<lparr>items := items_data itemsRes, sales := sales_data salesRes,
                                 meta := sales_meta salesRes, isSubmitting := False\<rparr>, w2))))"

subsection \<open>The pagination footer\<close>

text \<open>React renders a number child as its decimal string.\<close>

fun show_nat :: "nat \<Rightarrow> string" where
  "show_nat n =
     (if n < 10 then [''0123456789'' ! n]
      else show_nat (n div 10) @ [''0123456789'' ! (n mod 10)])"

definition show_int :: "int \<Rightarrow> string" where
  "show_int i = (if i < 0 then ''-'' @ show_nat (nat (- i)) else show_nat (nat i))"

text \<open>Lines 418-438: the text shows the server's \<^verbatim>\<open>meta\<close>, the buttons test the page's own
  \<^verbatim>\<open>page\<close> state.\<close>

definition footer_text :: "salesPage \<Rightarrow> string" where
  "footer_text p =
     ''Page '' @ show_int (meta_page (meta p)) @ '' of '' @ show_int (meta_totalPages (meta p))
       @ '' ('' @ show_int (meta_total (meta p)) @ '' total)''"

definition prev_disabled :: "salesPage \<Rightarrow> bool" where
  "prev_disabled p = (page p = 1)"

definition next_disabled :: "salesPage \<Rightarrow> bool" where
  "next_disabled p = (page p \<ge> meta_totalPages (meta p))"

section \<open>The sales report page: pagination footer\<close>

text \<open>\<^verbatim>\<open>SalesReportMeta\<close>; the page guards \<^verbatim>\<open>meta.totalPages ?? 1\<close>, so the field may be
  missing.\<close>

record report_meta =
  rm_page :: int
  rm_pageSize :: int
  rm_total :: int
  rm_totalPages :: "int option"

record salesReportPage =
  report_page :: int
  report_meta :: report_meta

definition PAGE_SIZE :: int where
  "PAGE_SIZE = 10"

definition totalPages :: "salesReportPage \<Rightarrow> int" where
  "totalPages p = (case rm_totalPages (report_meta p) of Some n \<Rightarrow> n | None \<Rightarrow> 1)"

definition report_footer_text :: "salesReportPage \<Rightarrow> string" where
  "report_footer_text p =
     ''Page '' @ show_int (report_page p) @ '' of '' @ show_int (totalPages p)
       @ '' ('' @ show_int (rm_total (report_meta p)) @ '' total)''"

definition report_prev_disabled :: "salesReportPage \<Rightarrow> bool" where
  "report_prev_disabled p = (report_page p = 1)"

definition report_next_disabled :: "salesReportPage \<Rightarrow> bool" where
  "report_next_disabled p = (report_page p \<ge> totalPages p)"

section \<open>Scenarios\<close>

text \<open>Concrete browser states, requests and servers on which the properties below are
  exercised.\<close>

definition session_world :: world where
  "session_world =
     \<lparr>storage = [''accessToken'' \<mapsto> ''old'', ''refreshToken'' \<mapsto> ''r0'', ''user'' \<mapsto> ''profile''],
      defaults = [''Content-Type'' \<mapsto> ''application/json''],
      href = ''/sales'', trace = []\<rparr>"

definition plain_get :: config where
  "plain_get = \<lparr>url = ITEMS_BASE, http_method = GET, headers = Map.empty,
                 reqdata = ListQuery 1 200, retry = False\<rparr>"

text \<open>A server for which \<^verbatim>\<open>old\<close> has expired: it refreshes to \<^verbatim>\<open>new\<close> and serves whoever
  presents \<^verbatim>\<open>new\<close>.\<close>

definition expired_server :: server where
  "expired_server tr c =
     (if url c = API_BASE_URL @ AUTH_REFRESH_TOKEN then Reply 200 (TokenData ''new'' ''r1'')
      else if headers c ''Authorization'' = Some (bearer ''new'') then Reply 200 (Message ''ok'')
      else Reply 401 (Message ''expired''))"

text \<open>A server that answers 401 to everything, the refresh call included.\<close>

definition rejecting_server :: server where
  "rejecting_server tr c = Reply 401 (Message ''unauthorized'')"

text \<open>A server that answers 500 to everything.\<close>

definition broken_server :: server where
  "broken_server tr c = Reply 500 (Message ''boom'')"

text \<open>The browser state after \<^verbatim>\<open>old\<close> was refreshed and the user then logged out, and
  the login request that follows.\<close>

definition after_refresh_and_logout :: world where
  "after_refresh_and_logout =
     snd (logout (initial_auth, snd (api_request expired_server plain_get session_world)))"

definition login_request :: config where
  "login_request = \<lparr>url = AUTH_LOGIN, http_method = POST, headers = Map.empty,
                     reqdata = Credentials ''a@b.com'' ''secret'', retry = False\<rparr>"

text \<open>Stand-ins for \<^verbatim>\<open>JSON.parse\<close> and \<^verbatim>\<open>JSON.stringify\<close> on one stored profile, browser
  states with a piece of the session missing, and servers for the login call.\<close>

definition parse_profile :: "string \<Rightarrow> json option" where
  "parse_profile s = (if s = ''profile'' then Some (JObj [(''name'', JStr ''A'')]) else None)"


definition no_refresh_world :: world where
  "no_refresh_world =
     \<lparr>storage = [''accessToken'' \<mapsto> ''old'', ''user'' \<mapsto> ''profile''],
      defaults = [''Content-Type'' \<mapsto> ''application/json''],
      href = ''/'', trace = []\<rparr>"

definition tokens_only_world :: world where
  "tokens_only_world =
     \<lparr>storage = [''accessToken'' \<mapsto> ''old'', ''refreshToken'' \<mapsto> ''r0''],
      defaults = [''Content-Type'' \<mapsto> ''application/json''],
      href = ''/'', trace = []\<rparr>"





text \<open>A sales page whose only item has 3 in stock while 5 are asked for, as a cash sale and
  as a sale on account with no customer chosen; list views on page 2 of 3; a reload that
  finds nothing.\<close>

definition low_stock_page :: salesPage where
  "low_stock_page =
     \<lparr>items = [\<lparr>item_id = Some ''i1'', item_name = ''Pen'', item_quantity = 3,
                 item_price = 10\<rparr>],
      customers = [], sales = [],
      meta = \<lparr>meta_page = 1, meta_pageSize = 10, meta_total = 0, meta_totalPages = 1\<rparr>,
      page = 1,
      form = \<lparr>itemId = ''i1'', customerId = [], isCash = True, quantity = 5,
               date = ''2024-01-01''\<rparr>,
      sales_isLoading = False, isSubmitting = False, error = None\<rparr>"

definition credit_sale_page :: salesPage where
  "credit_sale_page = low_stock_page\<lparr>form := (form low_stock_page)\<lparr>isCash := False\<rparr>\<rparr>"

definition page_2_of_3 :: salesPage where
  "page_2_of_3 =
     low_stock_page\<lparr>page := 2,
       meta := \<lparr>meta_page = 2, meta_pageSize = 10, meta_total = 25, meta_totalPages = 3\<rparr>\<rparr>"

definition report_2_of_3 :: salesReportPage where
  "report_2_of_3 =
     \<lparr>report_page = 2,
      report_meta = \<lparr>rm_page = 2, rm_pageSize = PAGE_SIZE, rm_total = 25,
                      rm_totalPages = Some 3\<rparr>\<rparr>"

definition empty_reload :: reload where
  "empty_reload pg pgSize w =
     (Inr (\<lparr>items_data = [], items_meta = \<lparr>meta_page = 1, meta_pageSize = 200, meta_total = 0,
                                            meta_totalPages = 1\<rparr>\<rparr>,
           \<lparr>sales_data = [], sales_meta = \<lparr>meta_page = pg, meta_pageSize = pgSize,
                                            meta_total = 0, meta_totalPages = 1\<rparr>\<rparr>), w)"

section \<open>Properties of the HTTP client\<close>

lemma request_interceptor_eq:
  "request_interceptor cfg w =
     (if present (storage w ''accessToken'')
      then cfg\<lparr>headers := (headers cfg)
                 (''Authorization'' \<mapsto> bearer (the (storage w ''accessToken'')))\<rparr>
      else cfg, w\<lparr>trace := trace w @ [GetItem ''accessToken'']\<rparr>)"
  by (simp add: request_interceptor_def getItem_def)

lemma outbound_eq:
  "outbound cfg w =
     (if present (storage w ''accessToken'')
      then cfg\<lparr>headers := (defaults w ++ headers cfg)
                 (''Authorization'' \<mapsto> bearer (the (storage w ''accessToken'')))\<rparr>
      else cfg\<lparr>headers := defaults w ++ headers cfg\<rparr>)"
  by (simp add: outbound_def request_interceptor_eq merge_config_def)

lemma outbound_fields [simp]:
  "url (outbound cfg w) = url cfg"
  "http_method (outbound cfg w) = http_method cfg"
  "reqdata (outbound cfg w) = reqdata cfg"
  "retry (outbound cfg w) = retry cfg"
  by (simp_all add: outbound_eq)

lemma after_send_fields [simp]:
  "trace (after_send cfg w) = trace w @ [GetItem ''accessToken'', ApiSend (outbound cfg w)]"
  "storage (after_send cfg w) = storage w"
  "defaults (after_send cfg w) = defaults w"
  "href (after_send cfg w) = href w"
  by (simp_all add: after_send_def)

text \<open>One step of \<open>api_request\<close>, in terms of the request as sent.\<close>

lemma api_request_unfold:
  "api_request srv cfg w =
     (case first_reply srv cfg w of
        NoReply \<Rightarrow> response_error srv (AxiosError (outbound cfg w) None) (after_send cfg w)
      | Reply st b \<Rightarrow>
          if 200 \<le> st \<and> st < 300 then (Inr (Response st b), after_send cfg w)
          else response_error srv (AxiosError (outbound cfg w) (Some (Response st b)))
                 (after_send cfg w))"
proof -
  have "request_interceptor (merge_config w cfg) w =
          (outbound cfg w, w\<lparr>trace := trace w @ [GetItem ''accessToken'']\<rparr>)"
    by (simp add: outbound_def request_interceptor_eq)
  then show ?thesis
    by (auto simp: first_reply_def after_send_def dispatch_def simp del: response_error.simps
          split: reply.splits)
qed

lemmas [simp del] = api_request.simps

lemma response_error_passes:
  "status_of err \<noteq> Some 401 \<or> is_retried err \<Longrightarrow> response_error srv err w = (Inl err, w)"
  by (cases err; cases "case err of AxiosError c r \<Rightarrow> r | _ \<Rightarrow> None") auto

lemma api_request_retried:
  "retry cfg \<Longrightarrow>
   api_request srv cfg w =
     (case first_reply srv cfg w of
        NoReply \<Rightarrow> (Inl (AxiosError (outbound cfg w) None), after_send cfg w)
      | Reply st b \<Rightarrow>
          if 200 \<le> st \<and> st < 300 then (Inr (Response st b), after_send cfg w)
          else (Inl (AxiosError (outbound cfg w) (Some (Response st b))), after_send cfg w))"
  by (auto simp: api_request_unfold response_error_passes split: reply.splits)

lemma snd_api_request_retried:
  "retry cfg \<Longrightarrow> snd (api_request srv cfg w) = after_send cfg w"
  by (simp add: api_request_retried split: reply.splits)

lemma refresh_calls_append [simp]:
  "refresh_calls (xs @ ys) = refresh_calls xs + refresh_calls ys"
  by (simp add: refresh_calls_def)

lemma refresh_calls_simps [simp]:
  "refresh_calls [] = 0"
  "refresh_calls (e # es) = (if is_refresh_call e then 1 else 0) + refresh_calls es"
  by (simp_all add: refresh_calls_def)

lemma refresh_calls_response_error:
  "refresh_calls (trace (snd (response_error srv err w))) \<le> refresh_calls (trace w) + 1"
proof (cases err)
  case (JsError m)
  then show ?thesis by simp
next
  case (AxiosError orig resp)
  show ?thesis
  proof (cases "map_option status resp = Some 401 \<and> \<not> retry orig")
    case False
    then show ?thesis using AxiosError by auto
  next
    case True
    then show ?thesis using AxiosError
      by (auto simp: getItem_def refresh_failed_def removeItem_def navigate_def axios_post_def
            setItem_def snd_api_request_retried Let_def
          split: prod.splits sum.splits option.splits reply.splits if_splits)
  qed
qed

lemma refresh_calls_api_request:
  "refresh_calls (trace (snd (api_request srv cfg w))) \<le> refresh_calls (trace w) + 1"
proof -
  have "snd (api_request srv cfg w) = after_send cfg w \<or>
        (\<exists>err. api_request srv cfg w = response_error srv err (after_send cfg w))"
    by (auto simp: api_request_unfold simp del: response_error.simps split: reply.splits)
  then show ?thesis
  proof
    assume "snd (api_request srv cfg w) = after_send cfg w"
    then show ?thesis by simp
  next
    assume "\<exists>err. api_request srv cfg w = response_error srv err (after_send cfg w)"
    then obtain err where "api_request srv cfg w = response_error srv err (after_send cfg w)" ..
    then show ?thesis
      using refresh_calls_response_error [of srv err "after_send cfg w"] by simp
  qed
qed

lemmas scenario_defs =
  session_world_def plain_get_def expired_server_def rejecting_server_def broken_server_def
  API_BASE_URL_def AUTH_REFRESH_TOKEN_def ITEMS_BASE_def bearer_def

lemmas client_defs =
  outbound_eq first_reply_def after_send_def refresh_reply_def refresh_request_def
  getItem_def setItem_def removeItem_def navigate_def axios_post_def refresh_failed_def
  merge_config_def

text \<open>
  Claim C1.  When the refresh that follows a 401 fails, the client should clear the three
  storage entries \<^verbatim>\<open>accessToken\<close>, \<^verbatim>\<open>refreshToken\<close> and \<^verbatim>\<open>user\<close>, navigate to the login
  page and hand the refresh failure to the caller.  The catch block removes only the two
  tokens: on a session with all three entries and a server that refuses the refresh, the
  caller gets the refresh failure, the location is \<^verbatim>\<open>/login\<close>, both tokens are gone, and
  the \<^verbatim>\<open>user\<close> entry is still there.
\<close>

theorem refresh_failure_leaves_user_entry:
  "fst (api_request rejecting_server plain_get session_world)
     = Inl (AxiosError (refresh_request ''r0'') (Some (Response 401 (Message ''unauthorized''))))
   \<and> href (snd (api_request rejecting_server plain_get session_world)) = ''/login''
   \<and> storage (snd (api_request rejecting_server plain_get session_world)) ''accessToken'' = None
   \<and> storage (snd (api_request rejecting_server plain_get session_world)) ''refreshToken'' = None
   \<and> storage (snd (api_request rejecting_server plain_get session_world)) ''user''
       = Some ''profile''"
  by (simp add: api_request_unfold scenario_defs client_defs)

text \<open>
  Claim C2.  A request whose retry marker is set and which is answered 401 is rejected with
  that very 401 error: the error handler returns it without touching the world, so the
  request makes no refresh call.  Whatever the request and the server, a call of the client
  adds at most one refresh call to the trace.
\<close>

theorem retried_401_is_terminal:
  assumes "retry cfg" and "first_reply srv cfg w = Reply 401 b"
  shows "api_request srv cfg w
           = (Inl (AxiosError (outbound cfg w) (Some (Response 401 b))), after_send cfg w)
         \<and> response_error srv (AxiosError (outbound cfg w) (Some (Response 401 b))) w'
           = (Inl (AxiosError (outbound cfg w) (Some (Response 401 b))), w')
         \<and> refresh_calls (trace (snd (api_request srv cfg w))) = refresh_calls (trace w)
         \<and> refresh_calls (trace (snd (api_request srv cfg0 w0))) \<le> refresh_calls (trace w0) + 1"
  using assms refresh_calls_api_request [of srv cfg0 w0]
  by (simp add: api_request_retried)

theorem retried_401_is_terminal_witness:
  "retry (plain_get\<lparr>retry := True\<rparr>)
   \<and> first_reply rejecting_server (plain_get\<lparr>retry := True\<rparr>) session_world
        = Reply 401 (Message ''unauthorized'')
   \<and> fst (api_request rejecting_server (plain_get\<lparr>retry := True\<rparr>) session_world)
        = Inl (AxiosError (outbound (plain_get\<lparr>retry := True\<rparr>) session_world)
                 (Some (Response 401 (Message ''unauthorized''))))
   \<and> refresh_calls (trace (snd (api_request rejecting_server (plain_get\<lparr>retry := True\<rparr>)
         session_world))) = 0"
  using retried_401_is_terminal [of "plain_get\<lparr>retry := True\<rparr>" rejecting_server session_world
           "Message ''unauthorized''" session_world plain_get session_world]
  by (simp add: scenario_defs first_reply_def)

text \<open>
  Claim C5.  A request that fails with anything but a 401 (no response at all, or a status
  outside 2xx other than 401) is rejected with that failure unchanged.  The error handler
  leaves the world exactly as it found it, so after the send there is no retry, no refresh
  call and no access to \<^verbatim>\<open>localStorage\<close>: the world is the one right after the send.
\<close>

theorem non_401_failure_propagates:
  assumes "rejected rep" and "reply_status rep \<noteq> Some 401"
      and "first_reply srv cfg w = rep"
  shows "response_error srv (reply_error c rep) w' = (Inl (reply_error c rep), w')
         \<and> api_request srv cfg w = (Inl (reply_error (outbound cfg w) rep), after_send cfg w)"
  using assms
  by (cases rep) (auto simp: api_request_unfold)

theorem non_401_failure_propagates_witness:
  "rejected (Reply 500 (Message ''boom'')) \<and> reply_status (Reply 500 (Message ''boom'')) \<noteq> Some 401
   \<and> first_reply broken_server plain_get session_world = Reply 500 (Message ''boom'')
   \<and> api_request broken_server plain_get session_world
       = (Inl (AxiosError (outbound plain_get session_world)
                 (Some (Response 500 (Message ''boom'')))),
          session_world\<lparr>trace := [GetItem ''accessToken'',
                                  ApiSend (outbound plain_get session_world)]\<rparr>)"
  using non_401_failure_propagates [of "Reply 500 (Message ''boom'')" broken_server plain_get
           session_world plain_get session_world]
  by (simp add: first_reply_def broken_server_def after_send_def session_world_def)

lemma first_401_unfold:
  assumes "first_reply srv cfg w = Reply 401 b" and "\<not> retry cfg"
  shows "api_request srv cfg w =
           response_error srv (AxiosError (outbound cfg w) (Some (Response 401 b)))
             (after_send cfg w)"
  using assms by (simp add: api_request_unfold del: response_error.simps)

lemma first_401_refresh_calls:
  assumes "first_reply srv cfg w = Reply 401 b" and "\<not> retry cfg"
      and "storage w ''refreshToken'' = Some rt" and "rt \<noteq> []"
  shows "refresh_calls (trace (snd (api_request srv cfg w))) = refresh_calls (trace w) + 1"
  using assms
  by (auto simp: first_401_unfold getItem_def refresh_failed_def removeItem_def navigate_def
        axios_post_def setItem_def snd_api_request_retried Let_def
      split: prod.splits sum.splits option.splits reply.splits if_splits)

lemma first_401_refresh_ok:
  assumes "first_reply srv cfg w = Reply 401 b" and "\<not> retry cfg"
      and "storage w ''refreshToken'' = Some rt" and "rt \<noteq> []"
      and "refresh_reply srv cfg w rt = Reply st b2" and "200 \<le> st" and "st < 300"
      and "tokens_of b2 = Some (a, r)"
  shows "\<exists>replay. 
          trace (snd (api_request srv cfg w)) =
             trace w @ [GetItem ''accessToken'', ApiSend (outbound cfg w),
                        GetItem ''refreshToken'', AxiosPost (refresh_request rt),
                        SetItem ''accessToken'' a, SetItem ''refreshToken'' r,
                        GetItem ''accessToken'', ApiSend replay]
          \<and> url replay = url cfg \<and> http_method replay = http_method cfg
          \<and> reqdata replay = reqdata cfg \<and> retry replay
          \<and> headers replay ''Authorization'' = Some (bearer a)
          \<and> storage (snd (api_request srv cfg w))
               = (storage w)(''accessToken'' \<mapsto> a, ''refreshToken'' \<mapsto> r)
          \<and> defaults (snd (api_request srv cfg w))
               = (defaults w)(''Authorization'' \<mapsto> bearer a)"
proof -
  let ?w5 = "(setItem ''refreshToken'' r (setItem ''accessToken'' a
               ((after_send cfg w)\<lparr>trace := trace (after_send cfg w)
                   @ [GetItem ''refreshToken'', AxiosPost (refresh_request rt)]\<rparr>)))
             \<lparr>defaults := (defaults w)(''Authorization'' \<mapsto> bearer a)\<rparr>"
  let ?replay = "(outbound cfg w)\<lparr>retry := True,
                   headers := (headers (outbound cfg w))(''Authorization'' \<mapsto> bearer a)\<rparr>"
  have step: "api_request srv cfg w = api_request srv ?replay ?w5"
    using assms
    by (simp add: first_401_unfold getItem_def axios_post_def refresh_reply_def setItem_def
          Let_def)
  have res: "snd (api_request srv cfg w) = after_send ?replay ?w5"
    unfolding step by (rule snd_api_request_retried) simp
  have hdr: "headers (outbound ?replay ?w5) ''Authorization'' = Some (bearer a)"
    by (simp add: outbound_eq setItem_def map_add_def)
  have "trace (after_send ?replay ?w5) =
             trace w @ [GetItem ''accessToken'', ApiSend (outbound cfg w),
                        GetItem ''refreshToken'', AxiosPost (refresh_request rt),
                        SetItem ''accessToken'' a, SetItem ''refreshToken'' r,
                        GetItem ''accessToken'', ApiSend (outbound ?replay ?w5)]"
    by (simp add: setItem_def)
  moreover have "storage (after_send ?replay ?w5)
               = (storage w)(''accessToken'' \<mapsto> a, ''refreshToken'' \<mapsto> r)"
    by (simp add: setItem_def)
  moreover have "defaults (after_send ?replay ?w5)
               = (defaults w)(''Authorization'' \<mapsto> bearer a)"
    by (simp add: setItem_def)
  moreover have "url (outbound ?replay ?w5) = url cfg"
    "http_method (outbound ?replay ?w5) = http_method cfg"
    "reqdata (outbound ?replay ?w5) = reqdata cfg" "retry (outbound ?replay ?w5)"
    by simp_all
  ultimately show ?thesis
    unfolding res using hdr by blast
qed

text \<open>What the catch block does when the refresh after a first 401 fails: the caller gets
  the refresh failure, the two token entries are removed and the location is the login
  page.\<close>

lemma refresh_failure_effects:
  assumes "first_reply srv cfg w = Reply 401 b" and "\<not> retry cfg"
  shows "(\<not> present (storage w ''refreshToken'') \<longrightarrow>
            fst (api_request srv cfg w) = Inl (JsError ''No refresh token''))
         \<and> (present (storage w ''refreshToken'')
              \<and> rejected (refresh_reply srv cfg w (the (storage w ''refreshToken''))) \<longrightarrow>
            fst (api_request srv cfg w)
              = Inl (reply_error (refresh_request (the (storage w ''refreshToken'')))
                      (refresh_reply srv cfg w (the (storage w ''refreshToken'')))))
         \<and> (\<not> present (storage w ''refreshToken'')
              \<or> rejected (refresh_reply srv cfg w (the (storage w ''refreshToken''))) \<longrightarrow>
            storage (snd (api_request srv cfg w))
              = (storage w)(''accessToken'' := None, ''refreshToken'' := None)
            \<and> href (snd (api_request srv cfg w)) = ''/login'')"
  using assms
  by (cases "refresh_reply srv cfg w (the (storage w ''refreshToken''))")
     (auto simp: first_401_unfold getItem_def refresh_failed_def removeItem_def navigate_def
        axios_post_def refresh_reply_def Let_def)

text \<open>
  Claim C3.  A request that is answered 401 for the first time (its retry marker is not set)
  while \<^verbatim>\<open>localStorage\<close> holds a refresh token (a non-empty string: the code tests the
  stored value for truthiness) makes exactly one refresh call.  When that call succeeds
  (a 2xx reply carrying a token pair), the effects of the whole request are, in order: the
  first send, the refresh call, both tokens written, and one replay.  The replay is the
  original request (same URL, method and data) with the retry marker set and with
  \<^verbatim>\<open>Authorization: Bearer <new access token>\<close>; afterwards storage holds the new pair and
  the client's default \<^verbatim>\<open>Authorization\<close> header is the new access token's.
\<close>

theorem first_401_refreshes_once_and_replays_once:
  assumes "first_reply srv cfg w = Reply 401 b" and "\<not> retry cfg"
      and "storage w ''refreshToken'' = Some rt" and "rt \<noteq> []"
  shows "refresh_calls (trace (snd (api_request srv cfg w))) = refresh_calls (trace w) + 1
         \<and> (refresh_reply srv cfg w rt = Reply st b2 \<and> 200 \<le> st \<and> st < 300
              \<and> tokens_of b2 = Some (a, r) \<longrightarrow>
            (\<exists>replay.
               trace (snd (api_request srv cfg w)) =
                 trace w @ [GetItem ''accessToken'', ApiSend (outbound cfg w),
                            GetItem ''refreshToken'', AxiosPost (refresh_request rt),
                            SetItem ''accessToken'' a, SetItem ''refreshToken'' r,
                            GetItem ''accessToken'', ApiSend replay]
               \<and> url replay = url cfg \<and> http_method replay = http_method cfg
               \<and> reqdata replay = reqdata cfg \<and> retry replay
               \<and> headers replay ''Authorization'' = Some (bearer a)
               \<and> storage (snd (api_request srv cfg w))
                    = (storage w)(''accessToken'' \<mapsto> a, ''refreshToken'' \<mapsto> r)
               \<and> defaults (snd (api_request srv cfg w))
                    = (defaults w)(''Authorization'' \<mapsto> bearer a)))"
  using first_401_refresh_calls [OF assms] first_401_refresh_ok [OF assms]
  by blast

theorem first_401_refreshes_once_and_replays_once_witness:
  "first_reply expired_server plain_get session_world = Reply 401 (Message ''expired'')
   \<and> \<not> retry plain_get
   \<and> storage session_world ''refreshToken'' = Some ''r0'' \<and> ''r0'' \<noteq> []
   \<and> refresh_reply expired_server plain_get session_world ''r0''
        = Reply 200 (TokenData ''new'' ''r1'')
   \<and> tokens_of (TokenData ''new'' ''r1'') = Some (''new'', ''r1'')
   \<and> refresh_calls (trace (snd (api_request expired_server plain_get session_world))) = 1
   \<and> storage (snd (api_request expired_server plain_get session_world))
        = (storage session_world)(''accessToken'' \<mapsto> ''new'', ''refreshToken'' \<mapsto> ''r1'')
   \<and> defaults (snd (api_request expired_server plain_get session_world))
        = (defaults session_world)(''Authorization'' \<mapsto> bearer ''new'')"
proof -
  have h1: "first_reply expired_server plain_get session_world = Reply 401 (Message ''expired'')"
    by (simp add: scenario_defs client_defs)
  have h2: "\<not> retry plain_get" by (simp add: plain_get_def)
  have h3: "storage session_world ''refreshToken'' = Some ''r0''"
    by (simp add: session_world_def)
  have h4: "''r0'' \<noteq> []" by simp
  have h5: "refresh_reply expired_server plain_get session_world ''r0''
              = Reply 200 (TokenData ''new'' ''r1'')"
    by (simp add: refresh_reply_def expired_server_def refresh_request_def)
  have h6: "tokens_of (TokenData ''new'' ''r1'') = Some (''new'', ''r1'')" by simp
  from first_401_refreshes_once_and_replays_once [OF h1 h2 h3 h4,
         of 200 "TokenData ''new'' ''r1''" "''new''" "''r1''"] h5 h6
  have "refresh_calls (trace (snd (api_request expired_server plain_get session_world))) = 1
   \<and> storage (snd (api_request expired_server plain_get session_world))
        = (storage session_world)(''accessToken'' \<mapsto> ''new'', ''refreshToken'' \<mapsto> ''r1'')
   \<and> defaults (snd (api_request expired_server plain_get session_world))
        = (defaults session_world)(''Authorization'' \<mapsto> bearer ''new'')"
    by (auto simp: session_world_def)
  with h1 h2 h3 h4 h5 h6 show ?thesis by blast
qed

lemma trace_response_error:
  "\<exists>rest. trace (snd (response_error srv err w)) = trace w @ rest"
proof (cases err)
  case (JsError m)
  then show ?thesis by simp
next
  case (AxiosError orig resp)
  show ?thesis
  proof (cases "map_option status resp = Some 401 \<and> \<not> retry orig")
    case False
    then show ?thesis using AxiosError by auto
  next
    case True
    then show ?thesis using AxiosError
      by (auto simp: getItem_def refresh_failed_def removeItem_def navigate_def axios_post_def
            setItem_def snd_api_request_retried Let_def
          split: prod.splits sum.splits option.splits reply.splits if_splits)
  qed
qed

lemma trace_api_request:
  "\<exists>rest. trace (snd (api_request srv cfg w))
            = trace w @ [GetItem ''accessToken'', ApiSend (outbound cfg w)] @ rest"
proof -
  have "snd (api_request srv cfg w) = after_send cfg w \<or>
        (\<exists>err. api_request srv cfg w = response_error srv err (after_send cfg w))"
    by (auto simp: api_request_unfold simp del: response_error.simps split: reply.splits)
  then show ?thesis
  proof
    assume "snd (api_request srv cfg w) = after_send cfg w"
    then show ?thesis by simp
  next
    assume "\<exists>err. api_request srv cfg w = response_error srv err (after_send cfg w)"
    then obtain err where "api_request srv cfg w = response_error srv err (after_send cfg w)" ..
    then show ?thesis
      using trace_response_error [of srv err "after_send cfg w"] by auto
  qed
qed

text \<open>
  Claim C4, as the code has it.  When \<^verbatim>\<open>localStorage\<close> holds a non-empty access token at
  send time, the request leaves with \<^verbatim>\<open>Authorization: Bearer <that token>\<close>.  Otherwise the
  interceptor adds nothing and the request leaves with the \<^verbatim>\<open>Authorization\<close> header of its
  own config or, failing that, of the client's defaults (set by an earlier successful
  refresh), and with none only when neither has one.  Every call of the client starts by
  reading \<^verbatim>\<open>accessToken\<close> and sending exactly this config.
\<close>

theorem authorization_header_as_sent:
  "headers (outbound cfg w) ''Authorization'' =
     (if present (storage w ''accessToken'') then Some (bearer (the (storage w ''accessToken'')))
      else case headers cfg ''Authorization'' of
             Some h \<Rightarrow> Some h
           | None \<Rightarrow> defaults w ''Authorization'')
   \<and> take 2 (drop (length (trace w)) (trace (snd (api_request srv cfg w))))
       = [GetItem ''accessToken'', ApiSend (outbound cfg w)]"
proof -
  obtain rest where "trace (snd (api_request srv cfg w))
            = trace w @ [GetItem ''accessToken'', ApiSend (outbound cfg w)] @ rest"
    using trace_api_request by blast
  then show ?thesis
    by (simp add: outbound_eq map_add_def split: option.splits)
qed

theorem authorization_header_as_sent_witness:
  "headers (outbound plain_get session_world) ''Authorization'' = Some ''Bearer old''
   \<and> headers (outbound plain_get (session_world\<lparr>storage := Map.empty\<rparr>)) ''Authorization'' = None"
  using authorization_header_as_sent [of plain_get session_world expired_server]
    authorization_header_as_sent [of plain_get "session_world\<lparr>storage := Map.empty\<rparr>"
      expired_server]
  by (simp add: session_world_def plain_get_def bearer_def)

text \<open>
  Claim C4 as stated fails: after a successful refresh the client's defaults carry
  \<^verbatim>\<open>Bearer new\<close>; after the logout that follows, storage holds no access token, and the
  login request, whose own config has no \<^verbatim>\<open>Authorization\<close> header, is sent with
  \<^verbatim>\<open>Authorization: Bearer new\<close>.
\<close>

theorem stale_default_credential_counterexample:
  "storage after_refresh_and_logout ''accessToken'' = None
   \<and> headers login_request ''Authorization'' = None
   \<and> headers (outbound login_request after_refresh_and_logout) ''Authorization''
       = Some ''Bearer new''
   \<and> last (api_sends (trace (snd (api_request expired_server login_request
         after_refresh_and_logout))))
       = outbound login_request after_refresh_and_logout"
  by (simp add: after_refresh_and_logout_def login_request_def logout_def initial_auth_def
        api_request_unfold scenario_defs client_defs api_sends_def List.map_filter_simps
        AUTH_LOGIN_def)

section \<open>Properties of the session\<close>

lemma startup_eq:
  "startup parse (a, w) =
     (if present (storage w ''accessToken'') \<and> present (storage w ''user'') then
        (case parse (the (storage w ''user'')) of
           Some parsedUser \<Rightarrow>
             (a\<lparr>user := parsedUser, isLoading := False\<rparr>,
              w\<lparr>trace := trace w @ [GetItem ''accessToken'', GetItem ''user'']\<rparr>)
         | None \<Rightarrow>
             (a\<lparr>isLoading := False\<rparr>,
              w\<lparr>storage := (storage w)(''user'' := None),
                trace := trace w @ [GetItem ''accessToken'', GetItem ''user'',
                                    RemoveItem ''user'']\<rparr>))
      else (a\<lparr>isLoading := False\<rparr>,
            w\<lparr>trace := trace w @ [GetItem ''accessToken'', GetItem ''user'']\<rparr>))"
  by (simp add: startup_def getItem_def removeItem_def split: option.splits)

text \<open>
  Claim C6, as the code has it.  On start the session is restored as authenticated exactly
  when the access token and the stored profile are both present (non-empty) and the profile
  parses to a truthy value; the refresh token is never read.  Storage is left as it is,
  except that the \<^verbatim>\<open>user\<close> entry alone is removed when both are present and the profile
  does not parse.
\<close>

theorem startup_restores_session:
  "isAuthenticated (fst (startup parse (initial_auth, w)))
     = (present (storage w ''accessToken'') \<and> present (storage w ''user'')
        \<and> (case parse (the (storage w ''user'')) of Some v \<Rightarrow> truthy v | None \<Rightarrow> False))
   \<and> storage (snd (startup parse (initial_auth, w)))
     = (if present (storage w ''accessToken'') \<and> present (storage w ''user'')
           \<and> parse (the (storage w ''user'')) = None
        then (storage w)(''user'' := None) else storage w)
   \<and> filter is_storage_access (drop (length (trace w)) (trace (snd (startup parse (initial_auth, w)))))
     = (if present (storage w ''accessToken'') \<and> present (storage w ''user'')
           \<and> parse (the (storage w ''user'')) = None
        then [GetItem ''accessToken'', GetItem ''user'', RemoveItem ''user'']
        else [GetItem ''accessToken'', GetItem ''user''])"
  by (auto simp: startup_eq isAuthenticated_def initial_auth_def split: option.splits)

theorem startup_restores_session_witness:
  "isAuthenticated (fst (startup parse_profile (initial_auth, session_world)))
   \<and> storage (snd (startup parse_profile (initial_auth, session_world))) = storage session_world
   \<and> \<not> isAuthenticated (fst (startup parse_profile (initial_auth, tokens_only_world)))
   \<and> storage (snd (startup parse_profile (initial_auth, tokens_only_world)))
       = storage tokens_only_world"
  using startup_restores_session [of parse_profile session_world]
    startup_restores_session [of parse_profile tokens_only_world]
  by (simp add: parse_profile_def session_world_def tokens_only_world_def)

text \<open>
  Claim C6 as stated fails twice: with an access token and a profile but no refresh token
  the session starts authenticated; with both tokens and no profile it starts
  unauthenticated and both tokens stay in storage.
\<close>

theorem startup_ignores_refresh_token_counterexample:
  "storage no_refresh_world ''refreshToken'' = None
   \<and> isAuthenticated (fst (startup parse_profile (initial_auth, no_refresh_world)))
   \<and> \<not> isAuthenticated (fst (startup parse_profile (initial_auth, tokens_only_world)))
   \<and> storage (snd (startup parse_profile (initial_auth, tokens_only_world))) ''accessToken''
       = Some ''old''
   \<and> storage (snd (startup parse_profile (initial_auth, tokens_only_world))) ''refreshToken''
       = Some ''r0''"
  by (simp add: startup_eq no_refresh_world_def tokens_only_world_def parse_profile_def
        isAuthenticated_def initial_auth_def)






section \<open>Properties of the pages\<close>

text \<open>
  Claim C8, as the code has it.  When the selected item has less in stock than the form
  asks for, validation fails, \<open>handleSubmit\<close> only records the message as the page's error
  and the world is untouched: no network call is made, whatever the server and the reload
  would do.  The message is that of the first check that fails, in the order of the code:
  no item id, then a sale on account with no customer chosen, then a quantity that is not
  positive, and the insufficient-stock message when all three pass.
\<close>

theorem insufficient_stock_blocks_submission:
  assumes "selectedItem p = Some it" and "item_quantity it < quantity (form p)"
  shows "validateForm p =
           Some (if itemId (form p) = [] then ''Please select an item.''
                 else if \<not> isCash (form p) \<and> customerId (form p) = []
                   then ''Please select a customer or choose Cash.''
                 else if quantity (form p) \<le> 0 then ''Quantity must be at least 1.''
                 else ''Insufficient stock for the selected item.'')
         \<and> handleSubmit srv today reload (p, w) = (p\<lparr>error := validateForm p\<rparr>, w)
         \<and> network_calls (trace (snd (handleSubmit srv today reload (p, w))))
             = network_calls (trace w)"
proof -
  have v: "validateForm p =
           Some (if itemId (form p) = [] then ''Please select an item.''
                 else if \<not> isCash (form p) \<and> customerId (form p) = []
                   then ''Please select a customer or choose Cash.''
                 else if quantity (form p) \<le> 0 then ''Quantity must be at least 1.''
                 else ''Insufficient stock for the selected item.'')"
    using assms by (simp add: validateForm_def)
  then obtain msg where m: "validateForm p = Some msg" by blast
  then have "handleSubmit srv today reload (p, w) = (p\<lparr>error := validateForm p\<rparr>, w)"
    by (simp add: handleSubmit_def)
  with v show ?thesis by simp
qed

theorem insufficient_stock_blocks_submission_witness:
  "selectedItem low_stock_page
     = Some \<lparr>item_id = Some ''i1'', item_name = ''Pen'', item_quantity = 3, item_price = 10\<rparr>
   \<and> item_quantity \<lparr>item_id = Some ''i1'', item_name = ''Pen'', item_quantity = 3,
        item_price = 10\<rparr> < quantity (form low_stock_page)
   \<and> validateForm low_stock_page = Some ''Insufficient stock for the selected item.''
   \<and> handleSubmit expired_server ''2024-01-02'' empty_reload (low_stock_page, session_world)
       = (low_stock_page\<lparr>error := Some ''Insufficient stock for the selected item.''\<rparr>,
          session_world)"
  using insufficient_stock_blocks_submission [of low_stock_page
      "\<lparr>item_id = Some ''i1'', item_name = ''Pen'', item_quantity = 3, item_price = 10\<rparr>"
      expired_server "''2024-01-02''" empty_reload session_world]
  by (auto simp: low_stock_page_def selectedItem_def)

text \<open>
  Claim C8 as stated fails on the message: with stock 3, quantity 5 and a sale on account
  with no customer chosen, validation fails on the customer check, which comes first.
\<close>

theorem missing_customer_message_counterexample:
  "selectedItem credit_sale_page
     = Some \<lparr>item_id = Some ''i1'', item_name = ''Pen'', item_quantity = 3, item_price = 10\<rparr>
   \<and> quantity (form credit_sale_page) = 5
   \<and> validateForm credit_sale_page = Some ''Please select a customer or choose Cash.''
   \<and> error (fst (handleSubmit expired_server ''2024-01-02'' empty_reload
         (credit_sale_page, session_world)))
       = Some ''Please select a customer or choose Cash.''"
  by (simp add: credit_sale_page_def low_stock_page_def selectedItem_def validateForm_def
        handleSubmit_def)

text \<open>
  Claim C9.  On page 2 with page size 10, 25 records and 3 pages, both list views render
  \<^verbatim>\<open>Page 2 of 3 (25 total)\<close> and disable neither button; in general Prev is disabled
  exactly on page 1 and Next exactly when the page is at least the number of pages.
\<close>

theorem pagination_footer_page_2_of_3:
  assumes "page p = 2"
      and "meta p = \<lparr>meta_page = 2, meta_pageSize = 10, meta_total = 25, meta_totalPages = 3\<rparr>"
      and "report_page r = 2"
      and "report_meta r = \<lparr>rm_page = 2, rm_pageSize = 10, rm_total = 25,
                             rm_totalPages = Some 3\<rparr>"
  shows "footer_text p = ''Page 2 of 3 (25 total)''
         \<and> \<not> prev_disabled p \<and> \<not> next_disabled p
         \<and> report_footer_text r = ''Page 2 of 3 (25 total)''
         \<and> \<not> report_prev_disabled r \<and> \<not> report_next_disabled r
         \<and> prev_disabled p' = (page p' = 1)
         \<and> next_disabled p' = (meta_totalPages (meta p') \<le> page p')
         \<and> report_prev_disabled r' = (report_page r' = 1)
         \<and> report_next_disabled r' = (totalPages r' \<le> report_page r')"
  using assms
  by (simp add: footer_text_def report_footer_text_def prev_disabled_def next_disabled_def
        report_prev_disabled_def report_next_disabled_def totalPages_def show_int_def)

theorem pagination_footer_page_2_of_3_witness:
  "page page_2_of_3 = 2
   \<and> meta page_2_of_3
       = \<lparr>meta_page = 2, meta_pageSize = 10, meta_total = 25, meta_totalPages = 3\<rparr>
   \<and> report_page report_2_of_3 = 2
   \<and> report_meta report_2_of_3
       = \<lparr>rm_page = 2, rm_pageSize = 10, rm_total = 25, rm_totalPages = Some 3\<rparr>
   \<and> footer_text page_2_of_3 = ''Page 2 of 3 (25 total)''
   \<and> \<not> prev_disabled page_2_of_3 \<and> \<not> next_disabled page_2_of_3
   \<and> report_footer_text report_2_of_3 = ''Page 2 of 3 (25 total)''
   \<and> \<not> report_prev_disabled report_2_of_3 \<and> \<not> report_next_disabled report_2_of_3"
  using pagination_footer_page_2_of_3 [of page_2_of_3 report_2_of_3 page_2_of_3 report_2_of_3]
  by (simp add: page_2_of_3_def report_2_of_3_def low_stock_page_def PAGE_SIZE_def)

end
